theory Spec2Isabelle
  imports Main "HOL-Library.Code_Target_Nat"
begin

section \<open>Data model\<close>

text \<open>
  The messages of package \<open>wg_pb\<close> as the source uses them. A singular message field is
  a Go pointer and may be nil, so it is an \<open>option\<close>; the elements of a repeated field
  are never nil. Optional scalar fields of \<open>Interface\<close> are pointers as well.
  Field names that occur in two messages carry a prefix (\<open>if_\<close>, \<open>peer_\<close>).
\<close>

datatype error =
    EnvVarEmpty string
  | UnknownPrivateKeyStore
  | InvalidKey
  | InvalidCidr
  | NilDereference

text \<open>
  The oneof \<open>Store\<close> of \<open>PrivateKey\<close>: unset, the environment-variable case, or any
  other case the schema may define.
\<close>

datatype PrivateKey_Store = Store_nil | PrivateKey_EnvVar string | Store_other

record pb_PrivateKey =
  Store :: PrivateKey_Store

record pb_Routes =
  Accept :: "string list"

record pb_User =
  PublicKey :: string
  Revoked :: bool

record pb_Server =
  PrivateKey :: "pb_PrivateKey option"
  ListenPort :: nat
  Cidr :: string
  Routes :: "pb_Routes option"
  Endpoint :: string
  Dns :: "string list"
  Users :: "pb_User list"

record pb_Interface =
  Address :: string
  if_ListenPort :: "nat option"
  if_PrivateKey :: "string option"
  if_Dns :: "string option"
  PreUp :: "string option"
  PostUp :: "string option"
  PreDown :: "string option"
  PostDown :: "string option"

record pb_Peer =
  peer_PublicKey :: string
  peer_Endpoint :: string
  AllowedIps :: string

record pb_Node =
  Interface :: "pb_Interface option"
  Peers :: "pb_Peer list"

section \<open>External capabilities\<close>

text \<open>
  The packages \<open>wgtypes\<close>, \<open>cidr\<close> and \<open>node\<close> are libraries outside the repository.
  Their functions are parameters of the model:
  \<^item> \<open>wg_PublicKey\<close>: \<open>wgtypes.ParseKey\<close> followed by \<open>PublicKey().String()\<close>, \<open>None\<close>
    when the key does not parse;
  \<^item> \<open>cidr_Parse\<close>, and on a parsed range \<open>cidr_First\<close> (\<open>First().String()\<close>),
    \<open>cidr_Mask\<close> and \<open>cidr_GetNth\<close> (\<open>GetNth(n).String()\<close>);
  \<^item> \<open>script_sep\<close>: the command separator of \<open>script.Builder.ToOneLine\<close>;
  \<^item> \<open>node_String\<close>: \<open>node.Builder.String\<close>, from the lines added to the text.
\<close>

record 'c extern =
  wg_PublicKey :: "string \<Rightarrow> string option"
  cidr_Parse :: "string \<Rightarrow> 'c option"
  cidr_First :: "'c \<Rightarrow> string"
  cidr_Mask :: "'c \<Rightarrow> string"
  cidr_GetNth :: "'c \<Rightarrow> nat \<Rightarrow> string"
  script_sep :: string
  node_String :: "string list \<Rightarrow> string"

text \<open>The process environment; \<open>os.Getenv\<close> gives the empty string for an unset name.\<close>

type_synonym environ = "string \<rightharpoonup> string"

definition os_Getenv :: "environ \<Rightarrow> string \<Rightarrow> string" where
  "os_Getenv env name = (case env name of None \<Rightarrow> [] | Some v \<Rightarrow> v)"

text \<open>\<open>strings.Join\<close>.\<close>

fun strings_Join :: "string list \<Rightarrow> string \<Rightarrow> string" where
  "strings_Join [] sep = []"
| "strings_Join [x] sep = x"
| "strings_Join (x # y # ys) sep = x @ sep @ strings_Join (y # ys) sep"

text \<open>The verb \<open>%d\<close> of \<open>fmt.Sprintf\<close> on an unsigned integer.\<close>

fun fmt_d :: "nat \<Rightarrow> string" where
  "fmt_d n = (if n < 10 then [''0123456789'' ! n]
              else fmt_d (n div 10) @ [''0123456789'' ! (n mod 10)])"

declare fmt_d.simps [simp del]

text \<open>
  Modelled from the spec: the builders of packages \<open>script\<close> and \<open>node\<close> are not in the
  repository. A builder holds the lines added so far, in order; the one-line form of a
  script is its commands concatenated with the command separator.
\<close>

type_synonym builder = "string list"

definition NewBuilder :: builder where
  "NewBuilder = []"

definition AddLine :: "builder \<Rightarrow> string \<Rightarrow> builder" where
  "AddLine b l = b @ [l]"

definition ToOneLine :: "string \<Rightarrow> builder \<Rightarrow> string" where
  "ToOneLine sep b = strings_Join b sep"

section \<open>Key resolution\<close>

fun getPrivateKey :: "environ \<Rightarrow> pb_PrivateKey option \<Rightarrow> error + string" where
  "getPrivateKey env None = Inl NilDereference"
| "getPrivateKey env (Some pk) =
     (case Store pk of
        PrivateKey_EnvVar name \<Rightarrow>
          (let val = os_Getenv env name in
           if val = [] then Inl (EnvVarEmpty name) else Inr val)
      | _ \<Rightarrow> Inl UnknownPrivateKeyStore)"

section \<open>Firewall script\<close>

fun add_routes :: "builder \<Rightarrow> string list \<Rightarrow> builder" where
  "add_routes s [] = s"
| "add_routes s (route # rest) =
     add_routes
       (AddLine s (''iptables -A wgroute -d '' @ route @ '' -i wg0 -o eth0 -j ACCEPT''))
       rest"

definition buildPostUp_script :: "pb_Routes \<Rightarrow> builder" where
  \<open>buildPostUp_script pu =
     (let s = NewBuilder;
          s = AddLine s ''iptables -N wgroute || echo "wgroute chain already exists"'';
          s = AddLine s
                ''iptables -C FORWARD -i wg0 -j wgroute || iptables -A FORWARD -i wg0 -j wgroute'';
          s = AddLine s ''iptables -t nat -A POSTROUTING -o eth0 -j MASQUERADE'';
          s = AddLine s ''iptables -F wgroute'';
          s = add_routes s (Accept pu);
          s = AddLine s ''iptables -A wgroute -j REJECT --reject-with icmp-host-prohibited'';
          s = AddLine s ''echo "Done"''
      in s)\<close>

definition buildPostUp :: "string \<Rightarrow> pb_Routes option \<Rightarrow> string" where
  "buildPostUp sep pu =
     (case pu of None \<Rightarrow> [] | Some r \<Rightarrow> ToOneLine sep (buildPostUp_script r))"

section \<open>Topology builder\<close>

text \<open>
  The loop over \<open>server.Users\<close>. Its state is the server's peer list and the list of user
  nodes. Reading \<open>server.Routes.Accept\<close> with \<open>Routes\<close> nil is a nil dereference, which
  ends the program.
\<close>

fun users_loop ::
  "'c extern \<Rightarrow> pb_Server \<Rightarrow> string \<Rightarrow> 'c \<Rightarrow> nat \<Rightarrow> pb_User list \<Rightarrow>
   pb_Peer list \<times> pb_Node list \<Rightarrow> error + (pb_Peer list \<times> pb_Node list)" where
  "users_loop X server pub c idx [] st = Inr st"
| "users_loop X server pub c idx (user # rest) (peers, userNodes) =
     (if \<not> Revoked user then
        (let ip = cidr_GetNth X c (idx + 1) @ ''/32'';
             peers' = peers @
               [\<lparr>peer_PublicKey = PublicKey user, peer_Endpoint = [], AllowedIps = ip\<rparr>];
             dns = strings_Join (Dns server) '',''
         in case Routes server of
              None \<Rightarrow> Inl NilDereference
            | Some routes \<Rightarrow>
                (let n = \<lparr>Interface = Some
                            \<lparr>Address = cidr_GetNth X c (idx + 1) @ ''/32'',
                             if_ListenPort = None, if_PrivateKey = None,
                             if_Dns = (if dns \<noteq> [] then Some dns else None),
                             PreUp = None, PostUp = None, PreDown = None, PostDown = None\<rparr>,
                          Peers =
                            [\<lparr>peer_PublicKey = pub,
                              peer_Endpoint = Endpoint server @ '':'' @ fmt_d (ListenPort server),
                              AllowedIps = strings_Join (Accept routes) '', ''\<rparr>]\<rparr>
                 in users_loop X server pub c (idx + 1) rest (peers', userNodes @ [n])))
      else users_loop X server pub c (idx + 1) rest (peers, userNodes))"

definition buildNodes ::
  "'c extern \<Rightarrow> environ \<Rightarrow> pb_Server \<Rightarrow> error + (pb_Node \<times> pb_Node list)" where
  "buildNodes X env server =
     (case getPrivateKey env (PrivateKey server) of
        Inl err \<Rightarrow> Inl err
      | Inr pk \<Rightarrow>
          (case wg_PublicKey X pk of
             None \<Rightarrow> Inl InvalidKey
           | Some pub \<Rightarrow>
               (case cidr_Parse X (Cidr server) of
                  None \<Rightarrow> Inl InvalidCidr
                | Some c \<Rightarrow>
                    (let postup = buildPostUp (script_sep X) (Routes server);
                         iface = \<lparr>Address = cidr_First X c @ ''/'' @ cidr_Mask X c,
                                  if_ListenPort = Some (ListenPort server),
                                  if_PrivateKey = Some pk,
                                  if_Dns = None, PreUp = None,
                                  PostUp = Some postup,
                                  PreDown = None, PostDown = None\<rparr>
                     in case users_loop X server pub c 0 (Users server) ([], []) of
                          Inl err \<Rightarrow> Inl err
                        | Inr (peers, userNodes) \<Rightarrow>
                            Inr (\<lparr>Interface = Some iface, Peers = peers\<rparr>, userNodes)))))"

section \<open>Node serializer\<close>

definition AddLine_opt :: "builder \<Rightarrow> string \<Rightarrow> string option \<Rightarrow> builder" where
  "AddLine_opt c key field =
     (case field of None \<Rightarrow> c | Some v \<Rightarrow> AddLine c (key @ '' = '' @ v))"

fun add_peers :: "builder \<Rightarrow> pb_Peer list \<Rightarrow> builder" where
  "add_peers c [] = c"
| "add_peers c (u # rest) =
     (let c = AddLine c ''[Peer]'';
          c = AddLine c (''PublicKey = '' @ peer_PublicKey u);
          c = AddLine c (''Endpoint = '' @ peer_Endpoint u);
          c = AddLine c (''AllowedIPs = '' @ AllowedIps u);
          c = AddLine c ''''
      in add_peers c rest)"

text \<open>The lines \<open>buildNodeFile\<close> adds to its builder, in the order of the calls.\<close>

definition buildNodeFile_lines :: "pb_Node \<Rightarrow> error + builder" where
  "buildNodeFile_lines n =
     (let c = NewBuilder;
          c = AddLine c ''[Interface]''
      in case Interface n of
           None \<Rightarrow> Inl NilDereference
         | Some i \<Rightarrow>
             (let c = AddLine c (''Address = '' @ Address i);
                  c = AddLine_opt c ''ListenPort'' (map_option fmt_d (if_ListenPort i));
                  c = AddLine_opt c ''PrivateKey'' (if_PrivateKey i);
                  c = AddLine_opt c ''DNS'' (if_Dns i);
                  c = AddLine_opt c ''PreUp'' (PreUp i);
                  c = AddLine_opt c ''PostUp'' (PostUp i);
                  c = AddLine_opt c ''PostDown'' (PostDown i);
                  c = AddLine_opt c ''PreDown'' (PreDown i);
                  c = AddLine c '''';
                  c = add_peers c (Peers n)
              in Inr c))"

definition buildNodeFile :: "'c extern \<Rightarrow> pb_Node \<Rightarrow> error + string" where
  "buildNodeFile X n =
     (case buildNodeFile_lines n of Inl err \<Rightarrow> Inl err | Inr c \<Rightarrow> Inr (node_String X c))"

text \<open>
  The pure part of \<open>main\<close>: the topology is built, then the server node and every user
  node are serialized.
\<close>

definition render_all ::
  "'c extern \<Rightarrow> environ \<Rightarrow> pb_Server \<Rightarrow>
   error + ((error + string) \<times> (error + string) list)" where
  "render_all X env server =
     (case buildNodes X env server of
        Inl err \<Rightarrow> Inl err
      | Inr (wgServerNode, wgUserNodes) \<Rightarrow>
          Inr (buildNodeFile X wgServerNode, map (buildNodeFile X) wgUserNodes))"

section \<open>Vocabulary of the statements\<close>

text \<open>The peer entry and the node the loop builds for the active user at index \<open>idx\<close>.\<close>

definition server_peer :: "'c extern \<Rightarrow> 'c \<Rightarrow> nat \<Rightarrow> pb_User \<Rightarrow> pb_Peer" where
  "server_peer X c idx user =
     \<lparr>peer_PublicKey = PublicKey user, peer_Endpoint = [],
      AllowedIps = cidr_GetNth X c (idx + 1) @ ''/32''\<rparr>"

definition user_node ::
  "'c extern \<Rightarrow> pb_Server \<Rightarrow> string \<Rightarrow> pb_Routes \<Rightarrow> 'c \<Rightarrow> nat \<Rightarrow> pb_Node" where
  "user_node X server pub routes c idx =
     \<lparr>Interface = Some
        \<lparr>Address = cidr_GetNth X c (idx + 1) @ ''/32'',
         if_ListenPort = None, if_PrivateKey = None,
         if_Dns = (if strings_Join (Dns server) '','' \<noteq> []
                   then Some (strings_Join (Dns server) '','') else None),
         PreUp = None, PostUp = None, PreDown = None, PostDown = None\<rparr>,
      Peers =
        [\<lparr>peer_PublicKey = pub,
          peer_Endpoint = Endpoint server @ '':'' @ fmt_d (ListenPort server),
          AllowedIps = strings_Join (Accept routes) '', ''\<rparr>]\<rparr>"

text \<open>The interface of the server node.\<close>

definition server_interface :: "'c extern \<Rightarrow> pb_Server \<Rightarrow> string \<Rightarrow> 'c \<Rightarrow> pb_Interface" where
  "server_interface X server pk c =
     \<lparr>Address = cidr_First X c @ ''/'' @ cidr_Mask X c,
      if_ListenPort = Some (ListenPort server),
      if_PrivateKey = Some pk,
      if_Dns = None, PreUp = None,
      PostUp = Some (buildPostUp (script_sep X) (Routes server)),
      PreDown = None, PostDown = None\<rparr>"

text \<open>An entry of the enumerated user list is active when its user is not revoked.\<close>

definition active :: "nat \<times> pb_User \<Rightarrow> bool" where
  "active p = (\<not> Revoked (snd p))"

text \<open>
  The position, in the list of user nodes and in the server's peer list, of the entry
  made for the user at index \<open>j\<close>: the number of active users before it.
\<close>

definition slot :: "pb_User list \<Rightarrow> nat \<Rightarrow> nat" where
  "slot users j = length (filter (\<lambda>u. \<not> Revoked u) (take j users))"

text \<open>The spec with the revoked flag of the user at index \<open>k\<close> set to \<open>b\<close>.\<close>

definition set_revoked :: "nat \<Rightarrow> bool \<Rightarrow> pb_Server \<Rightarrow> pb_Server" where
  "set_revoked k b server =
     server\<lparr>Users := (Users server)[k := (Users server ! k)\<lparr>Revoked := b\<rparr>]\<rparr>"

text \<open>The lines of the serialized text, by section.\<close>

definition opt_line :: "string \<Rightarrow> string option \<Rightarrow> string list" where
  "opt_line key field = (case field of None \<Rightarrow> [] | Some v \<Rightarrow> [key @ '' = '' @ v])"

definition peer_section :: "pb_Peer \<Rightarrow> string list" where
  "peer_section u =
     [''[Peer]'', ''PublicKey = '' @ peer_PublicKey u, ''Endpoint = '' @ peer_Endpoint u,
      ''AllowedIPs = '' @ AllowedIps u, []]"

definition interface_section :: "pb_Interface \<Rightarrow> string list" where
  "interface_section i =
     [''[Interface]'', ''Address = '' @ Address i]
     @ opt_line ''ListenPort'' (map_option fmt_d (if_ListenPort i))
     @ opt_line ''PrivateKey'' (if_PrivateKey i)
     @ opt_line ''DNS'' (if_Dns i)
     @ opt_line ''PreUp'' (PreUp i)
     @ opt_line ''PostUp'' (PostUp i)
     @ opt_line ''PostDown'' (PostDown i)
     @ opt_line ''PreDown'' (PreDown i)
     @ [[]]"

text \<open>
  The interface section as the specification words it, with the optional lines in the
  order ListenPort, PrivateKey, DNS, PreUp, PostUp, PreDown, PostDown.
\<close>

definition spec_interface_section :: "pb_Interface \<Rightarrow> string list" where
  "spec_interface_section i =
     [''[Interface]'', ''Address = '' @ Address i]
     @ opt_line ''ListenPort'' (map_option fmt_d (if_ListenPort i))
     @ opt_line ''PrivateKey'' (if_PrivateKey i)
     @ opt_line ''DNS'' (if_Dns i)
     @ opt_line ''PreUp'' (PreUp i)
     @ opt_line ''PostUp'' (PostUp i)
     @ opt_line ''PreDown'' (PreDown i)
     @ opt_line ''PostDown'' (PostDown i)
     @ [[]]"





section \<open>An address allocator and an example network\<close>

text \<open>
  Modelled from the spec: package \<open>cidr\<close> is not in the repository. An IPv4 range
  \<open>a.b.c.d/m\<close> is parsed to its network address (as an integer) and its prefix length;
  the first address of the range is the one after the network address and is the
  server's (ordinal 0); \<open>GetNth n\<close> is the address \<open>n\<close> places after it; the mask is the
  prefix length in decimal.
\<close>

fun split_char :: "char \<Rightarrow> string \<Rightarrow> string \<Rightarrow> string list" where
  "split_char d cur [] = [rev cur]"
| "split_char d cur (ch # s) =
     (if ch = d then rev cur # split_char d [] s else split_char d (ch # cur) s)"

fun digits_val :: "nat \<Rightarrow> string \<Rightarrow> nat option" where
  "digits_val acc [] = Some acc"
| "digits_val acc (ch # s) =
     (if 48 \<le> (of_char ch :: nat) \<and> (of_char ch :: nat) \<le> 57
      then digits_val (10 * acc + (of_char ch - 48)) s else None)"

definition parse_dec :: "string \<Rightarrow> nat option" where
  "parse_dec s = (if s = [] then None else digits_val 0 s)"

definition ipv4_Parse :: "string \<Rightarrow> (int \<times> nat) option" where
  "ipv4_Parse s =
     (case split_char CHR ''/'' [] s of
        [ip, m] \<Rightarrow>
          (case (map parse_dec (split_char CHR ''.'' [] ip), parse_dec m) of
             ([Some a, Some b, Some c, Some d], Some len) \<Rightarrow>
               if a \<le> 255 \<and> b \<le> 255 \<and> c \<le> 255 \<and> d \<le> 255 \<and> len \<le> 32
               then Some ((((int a * 256 + int b) * 256 + int c) * 256 + int d)
                            div 2 ^ (32 - len) * 2 ^ (32 - len), len)
               else None
           | _ \<Rightarrow> None)
      | _ \<Rightarrow> None)"

definition ipv4_String :: "int \<Rightarrow> string" where
  "ipv4_String n =
     fmt_d (nat (n div 16777216 mod 256)) @ ''.'' @ fmt_d (nat (n div 65536 mod 256)) @ ''.''
     @ fmt_d (nat (n div 256 mod 256)) @ ''.'' @ fmt_d (nat (n mod 256))"

definition ipv4_First :: "int \<times> nat \<Rightarrow> string" where
  "ipv4_First c = ipv4_String (fst c + 1)"

definition ipv4_Mask :: "int \<times> nat \<Rightarrow> string" where
  "ipv4_Mask c = fmt_d (snd c)"

definition ipv4_GetNth :: "int \<times> nat \<Rightarrow> nat \<Rightarrow> string" where
  "ipv4_GetNth c n = ipv4_String (fst c + 1 + int n)"

text \<open>
  A stand-in for the other libraries in examples: the key derivation is replaced by a
  marker around the secret, commands are separated by a semicolon and a space, and
  every line of a file ends with a newline.
\<close>

definition example_extern :: "(int \<times> nat) extern" where
  "example_extern =
     \<lparr>wg_PublicKey = (\<lambda>k. if k = [] then None else Some (''pub('' @ k @ '')'')),
      cidr_Parse = ipv4_Parse,
      cidr_First = ipv4_First,
      cidr_Mask = ipv4_Mask,
      cidr_GetNth = ipv4_GetNth,
      script_sep = ''; '',
      node_String = (\<lambda>ls. concat (map (\<lambda>l. l @ [CHR 0x0A]) ls))\<rparr>"

definition example_env :: environ where
  "example_env = [''WG_KEY'' \<mapsto> ''secret'']"

text \<open>The example of the specification, section 8.\<close>

definition example_server :: pb_Server where
  "example_server =
     \<lparr>PrivateKey = Some \<lparr>Store = PrivateKey_EnvVar ''WG_KEY''\<rparr>,
      ListenPort = 51820,
      Cidr = ''10.0.0.0/24'',
      Routes = Some \<lparr>Accept = [''10.1.0.0/16'']\<rparr>,
      Endpoint = ''vpn.example.com'',
      Dns = [],
      Users = [\<lparr>PublicKey = ''A'', Revoked = False\<rparr>,
               \<lparr>PublicKey = ''B'', Revoked = False\<rparr>,
               \<lparr>PublicKey = ''C'', Revoked = True\<rparr>]\<rparr>"

text \<open>A node with both shutdown hooks set and no peer.\<close>

definition down_hooks_node :: pb_Node where
  "down_hooks_node =
     \<lparr>Interface = Some
        \<lparr>Address = ''10.0.0.1/24'', if_ListenPort = None, if_PrivateKey = None,
         if_Dns = None, PreUp = None, PostUp = None,
         PreDown = Some ''a'', PostDown = Some ''b''\<rparr>,
      Peers = []\<rparr>"

section \<open>The loop over the users\<close>

lemma users_loop_routes:
  assumes "Routes server = Some r"
  shows "users_loop X server pub c idx us (ps, ns) =
           Inr (ps @ map (\<lambda>p. server_peer X c (fst p) (snd p)) (filter active (enumerate idx us)),
                ns @ map (\<lambda>p. user_node X server pub r c (fst p)) (filter active (enumerate idx us)))"
  using assms
  by (induction us arbitrary: idx ps ns)
     (simp_all add: Let_def server_peer_def user_node_def active_def)

lemma users_loop_no_routes:
  assumes "Routes server = None"
  shows "users_loop X server pub c idx us st =
           (if \<exists>u\<in>set us. \<not> Revoked u then Inl NilDereference else Inr st)"
  using assms
proof (induction us arbitrary: idx st)
  case Nil
  then show ?case by simp
next
  case (Cons u us)
  obtain ps ns where st: "st = (ps, ns)" by (cases st)
  show ?case using Cons by (simp add: st Let_def)
qed

lemma active_filter_empty:
  "\<forall>u\<in>set us. Revoked u \<Longrightarrow> filter active (enumerate idx us) = []"
  by (induction us arbitrary: idx) (simp_all add: active_def)

lemma buildNodes_success:
  assumes "getPrivateKey env (PrivateKey server) = Inr pk"
    and "wg_PublicKey X pk = Some pub"
    and "cidr_Parse X (Cidr server) = Some c"
    and "Routes server = Some r"
  shows "buildNodes X env server =
           Inr (\<lparr>Interface = Some (server_interface X server pk c),
                 Peers = map (\<lambda>p. server_peer X c (fst p) (snd p))
                           (filter active (enumerate 0 (Users server)))\<rparr>,
                map (\<lambda>p. user_node X server pub r c (fst p))
                  (filter active (enumerate 0 (Users server))))"
  using assms
  by (simp add: buildNodes_def users_loop_routes server_interface_def Let_def)

lemma buildNodes_no_routes:
  assumes "getPrivateKey env (PrivateKey server) = Inr pk"
    and "wg_PublicKey X pk = Some pub"
    and "cidr_Parse X (Cidr server) = Some c"
    and "Routes server = None"
  shows "buildNodes X env server =
           (if \<exists>u\<in>set (Users server). \<not> Revoked u then Inl NilDereference
            else Inr (\<lparr>Interface = Some (server_interface X server pk c), Peers = []\<rparr>, []))"
  using assms
  by (simp add: buildNodes_def users_loop_no_routes server_interface_def Let_def)

lemma buildNodes_Inr_inputs:
  assumes "buildNodes X env server = Inr res"
  obtains pk pub c where "getPrivateKey env (PrivateKey server) = Inr pk"
    and "wg_PublicKey X pk = Some pub"
    and "cidr_Parse X (Cidr server) = Some c"
  using assms
  by (auto simp: buildNodes_def split: sum.splits option.splits)

lemma slot_filter_enumerate:
  assumes "j < length us" and "\<not> Revoked (us ! j)"
  shows "slot us j < length (filter active (enumerate n us))
         \<and> filter active (enumerate n us) ! slot us j = (n + j, us ! j)"
  using assms
proof (induction us arbitrary: j n)
  case Nil
  then show ?case by simp
next
  case (Cons u us)
  show ?case
  proof (cases j)
    case 0
    with Cons.prems show ?thesis by (simp add: slot_def active_def)
  next
    case (Suc j')
    with Cons.prems have "j' < length us" "\<not> Revoked (us ! j')" by simp_all
    from Cons.IH[OF this, of "Suc n"] show ?thesis
      by (simp add: Suc slot_def active_def)
  qed
qed

lemma set_revoked_fields:
  "PrivateKey (set_revoked k b server) = PrivateKey server"
  "Cidr (set_revoked k b server) = Cidr server"
  "Routes (set_revoked k b server) = Routes server"
  "length (Users (set_revoked k b server)) = length (Users server)"
  "k \<noteq> j \<Longrightarrow> Users (set_revoked k b server) ! j = Users server ! j"
  by (simp_all add: set_revoked_def)

lemma active_user_needs_routes:
  assumes "buildNodes X env server = Inr res"
    and "j < length (Users server)" and "\<not> Revoked (Users server ! j)"
  obtains r where "Routes server = Some r"
proof (cases "Routes server")
  case None
  from assms(1) obtain pk pub c where
    "getPrivateKey env (PrivateKey server) = Inr pk" "wg_PublicKey X pk = Some pub"
    "cidr_Parse X (Cidr server) = Some c"
    by (rule buildNodes_Inr_inputs)
  from buildNodes_no_routes[OF this None] assms show ?thesis
    by (auto split: if_splits)
next
  case (Some r)
  then show ?thesis by (rule that)
qed

lemma member_address:
  assumes "getPrivateKey env (PrivateKey server) = Inr pk"
    and "wg_PublicKey X pk = Some pub"
    and "cidr_Parse X (Cidr server) = Some c"
    and "Routes server = Some r"
    and "j < length (Users server)" and "\<not> Revoked (Users server ! j)"
  shows "\<exists>serverNode userNodes.
           buildNodes X env server = Inr (serverNode, userNodes)
           \<and> slot (Users server) j < length userNodes
           \<and> map_option Address (Interface (userNodes ! slot (Users server) j)) =
               Some (cidr_GetNth X c (j + 1) @ ''/32'')"
proof -
  from slot_filter_enumerate[OF assms(5,6), of 0]
  have "slot (Users server) j < length (filter active (enumerate 0 (Users server)))"
    and "filter active (enumerate 0 (Users server)) ! slot (Users server) j = (j, Users server ! j)"
    by simp_all
  then show ?thesis
    unfolding buildNodes_success[OF assms(1-4)]
    by (simp add: user_node_def)
qed

lemma example_inputs:
  "getPrivateKey example_env (PrivateKey example_server) = Inr ''secret''"
  "wg_PublicKey example_extern ''secret'' = Some ''pub(secret)''"
  "cidr_Parse example_extern (Cidr example_server) = Some (167772160, 24)"
  "Routes example_server = Some \<lparr>Accept = [''10.1.0.0/16'']\<rparr>"
  by code_simp+

section \<open>The lines of a serialized node\<close>

lemma buildNodes_server_node:
  assumes "buildNodes X env server = Inr (serverNode, userNodes)"
  obtains pk c where "getPrivateKey env (PrivateKey server) = Inr pk"
    and "cidr_Parse X (Cidr server) = Some c"
    and "serverNode =
           \<lparr>Interface = Some (server_interface X server pk c),
            Peers = map (\<lambda>p. server_peer X c (fst p) (snd p))
                      (filter active (enumerate 0 (Users server)))\<rparr>"
proof -
  from assms obtain pk pub c where in_ok: "getPrivateKey env (PrivateKey server) = Inr pk"
    "wg_PublicKey X pk = Some pub" "cidr_Parse X (Cidr server) = Some c"
    by (rule buildNodes_Inr_inputs)
  show ?thesis
  proof (cases "Routes server")
    case None
    from buildNodes_no_routes[OF in_ok None] assms
    have "\<forall>u\<in>set (Users server). Revoked u"
      and "serverNode = \<lparr>Interface = Some (server_interface X server pk c), Peers = []\<rparr>"
      by (auto split: if_splits)
    then show ?thesis
      by (intro that[OF in_ok(1) in_ok(3)]) (simp add: active_filter_empty)
  next
    case (Some r)
    from buildNodes_success[OF in_ok Some] assms show ?thesis
      by (intro that[OF in_ok(1) in_ok(3)]) simp
  qed
qed

lemma add_peers_sections: "add_peers c ps = c @ concat (map peer_section ps)"
  by (induction ps arbitrary: c) (simp_all add: AddLine_def peer_section_def Let_def)

lemma AddLine_opt_line: "AddLine_opt c key field = c @ opt_line key field"
  by (simp add: AddLine_opt_def opt_line_def AddLine_def split: option.splits)

lemma buildNodeFile_lines_sections:
  assumes "Interface n = Some i"
  shows "buildNodeFile_lines n = Inr (interface_section i @ concat (map peer_section (Peers n)))"
  using assms
  by (simp add: buildNodeFile_lines_def interface_section_def add_peers_sections
      AddLine_opt_line AddLine_def NewBuilder_def Let_def)

section \<open>Addresses follow the original index\<close>

text \<open>
  Claim C1. When \<open>buildNodes\<close> succeeds, the node of the active user at index \<open>j\<close> of
  \<open>server.Users\<close> has the address \<open>GetNth (j + 1)\<close> of the parsed range with the suffix
  \<open>/32\<close>. Setting the revoked flag of the user at any other index \<open>k\<close> to any value
  leaves the build successful and the address of the user at index \<open>j\<close> unchanged.
\<close>

theorem address_by_original_index:
  assumes "buildNodes X env server = Inr (serverNode, userNodes)"
    and "cidr_Parse X (Cidr server) = Some c"
    and "j < length (Users server)" and "\<not> Revoked (Users server ! j)"
  shows "slot (Users server) j < length userNodes
         \<and> map_option Address (Interface (userNodes ! slot (Users server) j)) =
             Some (cidr_GetNth X c (j + 1) @ ''/32'')
         \<and> (\<forall>k b. k \<noteq> j \<longrightarrow>
              (\<exists>serverNode' userNodes'.
                 buildNodes X env (set_revoked k b server) = Inr (serverNode', userNodes')
                 \<and> slot (Users (set_revoked k b server)) j < length userNodes'
                 \<and> map_option Address
                      (Interface (userNodes' ! slot (Users (set_revoked k b server)) j)) =
                    map_option Address (Interface (userNodes ! slot (Users server) j))))"
proof -
  from assms(1) obtain pk pub c' where key: "getPrivateKey env (PrivateKey server) = Inr pk"
    and pub: "wg_PublicKey X pk = Some pub" and "cidr_Parse X (Cidr server) = Some c'"
    by (rule buildNodes_Inr_inputs)
  with assms(2) have cidr: "cidr_Parse X (Cidr server) = Some c" by simp
  from assms(1,3,4) obtain r where routes: "Routes server = Some r"
    by (rule active_user_needs_routes)
  from member_address[OF key pub cidr routes assms(3,4)] assms(1)
  have here: "slot (Users server) j < length userNodes"
    "map_option Address (Interface (userNodes ! slot (Users server) j)) =
       Some (cidr_GetNth X c (j + 1) @ ''/32'')"
    by auto
  have there: "\<exists>serverNode' userNodes'.
      buildNodes X env (set_revoked k b server) = Inr (serverNode', userNodes')
      \<and> slot (Users (set_revoked k b server)) j < length userNodes'
      \<and> map_option Address (Interface (userNodes' ! slot (Users (set_revoked k b server)) j)) =
          Some (cidr_GetNth X c (j + 1) @ ''/32'')"
    if "k \<noteq> j" for k b
    using member_address[of env "set_revoked k b server" pk X pub c r j]
      key pub cidr routes assms(3,4) that
    by (simp add: set_revoked_fields)
  show ?thesis
  proof (intro conjI allI impI)
    show "slot (Users server) j < length userNodes" by (rule here(1))
    show "map_option Address (Interface (userNodes ! slot (Users server) j)) =
            Some (cidr_GetNth X c (j + 1) @ ''/32'')" by (rule here(2))
    fix k b assume "k \<noteq> j"
    from there[OF this]
    show "\<exists>serverNode' userNodes'.
            buildNodes X env (set_revoked k b server) = Inr (serverNode', userNodes')
            \<and> slot (Users (set_revoked k b server)) j < length userNodes'
            \<and> map_option Address
                 (Interface (userNodes' ! slot (Users (set_revoked k b server)) j)) =
               map_option Address (Interface (userNodes ! slot (Users server) j))"
      unfolding here(2) .
  qed
qed

text \<open>The example network, the user at index 1, and the user at index 0 revoked.\<close>

theorem address_by_original_index_witness:
  "\<exists>serverNode userNodes.
     buildNodes example_extern example_env example_server = Inr (serverNode, userNodes)
     \<and> map_option Address (Interface (userNodes ! slot (Users example_server) 1)) =
         Some ''10.0.0.3/32''
     \<and> (\<exists>serverNode' userNodes'.
           buildNodes example_extern example_env (set_revoked 0 True example_server) =
             Inr (serverNode', userNodes')
           \<and> map_option Address
                (Interface (userNodes' ! slot (Users (set_revoked 0 True example_server)) 1)) =
               Some ''10.0.0.3/32'')"
proof -
  obtain serverNode userNodes where
    b: "buildNodes example_extern example_env example_server = Inr (serverNode, userNodes)"
    using buildNodes_success[OF example_inputs] by blast
  have j: "1 < length (Users example_server)" "\<not> Revoked (Users example_server ! 1)"
    by code_simp+
  have a: "cidr_GetNth example_extern (167772160, 24) (1 + 1) @ ''/32'' = ''10.0.0.3/32''"
    by code_simp
  from address_by_original_index[OF b example_inputs(3) j] show ?thesis
    unfolding a using b by (metis zero_neq_one)
qed

section \<open>Key resolution\<close>

text \<open>
  Claim C8. For a private-key message that is present, \<open>getPrivateKey\<close> returns a secret
  exactly when the source is the environment-variable case and the named variable is set
  to a value that is not empty, and the secret is that value; for the
  environment-variable case with the variable unset or empty it returns the error that
  names the variable; for every other source it returns the unknown-store error.
\<close>

theorem getPrivateKey_results:
  "(\<forall>v. getPrivateKey env (Some pk) = Inr v \<longleftrightarrow>
          (\<exists>name. Store pk = PrivateKey_EnvVar name \<and> env name = Some v \<and> v \<noteq> []))
   \<and> (\<forall>name. Store pk = PrivateKey_EnvVar name \<and> (env name = None \<or> env name = Some []) \<longrightarrow>
          getPrivateKey env (Some pk) = Inl (EnvVarEmpty name))
   \<and> ((\<forall>name. Store pk \<noteq> PrivateKey_EnvVar name) \<longrightarrow>
          getPrivateKey env (Some pk) = Inl UnknownPrivateKeyStore)"
  by (cases "Store pk")
     (auto simp: os_Getenv_def Let_def split: option.splits)

text \<open>A set variable, an unset one, an empty one, and another kind of source.\<close>

theorem getPrivateKey_results_witness:
  "getPrivateKey [''WG_KEY'' \<mapsto> ''secret''] (Some \<lparr>Store = PrivateKey_EnvVar ''WG_KEY''\<rparr>) =
     Inr ''secret''
   \<and> getPrivateKey Map.empty (Some \<lparr>Store = PrivateKey_EnvVar ''WG_KEY''\<rparr>) =
       Inl (EnvVarEmpty ''WG_KEY'')
   \<and> getPrivateKey [''WG_KEY'' \<mapsto> ''''] (Some \<lparr>Store = PrivateKey_EnvVar ''WG_KEY''\<rparr>) =
       Inl (EnvVarEmpty ''WG_KEY'')
   \<and> getPrivateKey [''WG_KEY'' \<mapsto> ''secret''] (Some \<lparr>Store = Store_other\<rparr>) =
       Inl UnknownPrivateKeyStore"
  using getPrivateKey_results[of "[''WG_KEY'' \<mapsto> ''secret'']" "\<lparr>Store = PrivateKey_EnvVar ''WG_KEY''\<rparr>"]
    getPrivateKey_results[of Map.empty "\<lparr>Store = PrivateKey_EnvVar ''WG_KEY''\<rparr>"]
    getPrivateKey_results[of "[''WG_KEY'' \<mapsto> '''']" "\<lparr>Store = PrivateKey_EnvVar ''WG_KEY''\<rparr>"]
    getPrivateKey_results[of "[''WG_KEY'' \<mapsto> ''secret'']" "\<lparr>Store = Store_other\<rparr>"]
  by simp

section \<open>Absent routes\<close>

text \<open>
  Claim C4. \<open>buildNodes\<close> is claimed to return a pair or an error on every input. On the
  example network with \<open>routes\<close> absent the loop reaches the first active user and reads
  \<open>server.Routes.Accept\<close> through the nil pointer: the program ends in a nil
  dereference, where \<open>buildPostUp\<close> checks the same pointer for nil.
\<close>

theorem buildNodes_nil_routes_panics:
  "buildNodes example_extern example_env (example_server\<lparr>Routes := None\<rparr>) = Inl NilDereference"
  by code_simp

text \<open>
  Claim C2. With \<open>routes\<close> absent the server's text is claimed to have no PostUp line.
  On the example network with \<open>routes\<close> absent and no user, the server's interface
  carries a PostUp field that is present and empty, and the serializer writes the line
  \<open>PostUp = \<close>; the user nodes get their DNS field only when the joined list is not empty.
\<close>

theorem server_PostUp_line_without_routes:
  "render_all example_extern example_env (example_server\<lparr>Routes := None, Users := []\<rparr>) =
     Inr (Inr (node_String example_extern
                [''[Interface]'', ''Address = 10.0.0.1/24'', ''ListenPort = 51820'',
                 ''PrivateKey = secret'', ''PostUp = '', '''']), [])"
  by code_simp

section \<open>The serialized text\<close>

text \<open>
  Claim C3, as the specification states it, orders the optional lines ListenPort,
  PrivateKey, DNS, PreUp, PostUp, PreDown, PostDown. On a node with both shutdown hooks
  set, the serializer writes PostDown before PreDown.
\<close>

theorem buildNodeFile_order_counterexample:
  "buildNodeFile_lines down_hooks_node =
     Inr [''[Interface]'', ''Address = 10.0.0.1/24'', ''PostDown = b'', ''PreDown = a'', '''']
   \<and> spec_interface_section (the (Interface down_hooks_node))
        @ concat (map peer_section (Peers down_hooks_node)) =
       [''[Interface]'', ''Address = 10.0.0.1/24'', ''PreDown = a'', ''PostDown = b'', '''']
   \<and> buildNodeFile_lines down_hooks_node \<noteq>
       Inr (spec_interface_section (the (Interface down_hooks_node))
            @ concat (map peer_section (Peers down_hooks_node)))"
  by code_simp

text \<open>
  Claim C3, amended. For every node with an interface, the serializer writes the header
  and the Address line, then each optional field that is present, in the order
  ListenPort, PrivateKey, DNS, PreUp, PostUp, PostDown, PreDown, then an empty line, then
  for each peer in order a section of the lines PublicKey, Endpoint, AllowedIPs followed
  by an empty line; the text is the \<open>String\<close> of the node builder on these lines.
\<close>

theorem buildNodeFile_sections:
  "buildNodeFile_lines \<lparr>Interface = Some i, Peers = ps\<rparr> =
     Inr ([''[Interface]'', ''Address = '' @ Address i]
          @ opt_line ''ListenPort'' (map_option fmt_d (if_ListenPort i))
          @ opt_line ''PrivateKey'' (if_PrivateKey i)
          @ opt_line ''DNS'' (if_Dns i)
          @ opt_line ''PreUp'' (PreUp i)
          @ opt_line ''PostUp'' (PostUp i)
          @ opt_line ''PostDown'' (PostDown i)
          @ opt_line ''PreDown'' (PreDown i)
          @ [[]]
          @ concat (map (\<lambda>u. [''[Peer]'', ''PublicKey = '' @ peer_PublicKey u,
                               ''Endpoint = '' @ peer_Endpoint u,
                               ''AllowedIPs = '' @ AllowedIps u, []]) ps))
   \<and> buildNodeFile X \<lparr>Interface = Some i, Peers = ps\<rparr> =
       map_sum id (node_String X) (buildNodeFile_lines \<lparr>Interface = Some i, Peers = ps\<rparr>)"
proof -
  have "peer_section = (\<lambda>u. [''[Peer]'', ''PublicKey = '' @ peer_PublicKey u,
                               ''Endpoint = '' @ peer_Endpoint u,
                               ''AllowedIPs = '' @ AllowedIps u, []])"
    by (rule ext) (simp add: peer_section_def)
  then show ?thesis
    using buildNodeFile_lines_sections[of "\<lparr>Interface = Some i, Peers = ps\<rparr>" i]
    by (simp add: interface_section_def buildNodeFile_def split: sum.splits)
qed

text \<open>
  Claim C10. Every peer section of every serialized node has the three lines PublicKey,
  Endpoint and AllowedIPs, whatever the endpoint is. The peers of the server node that
  \<open>buildNodes\<close> returns have an empty endpoint, so each of their sections has the line
  \<open>Endpoint = \<close> with nothing after it.
\<close>

theorem peer_sections_rendered:
  assumes "buildNodes X env server = Inr (serverNode, userNodes)"
  shows "(\<forall>n i. Interface n = Some i \<longrightarrow>
            buildNodeFile_lines n =
              Inr (interface_section i
                   @ concat (map (\<lambda>u. [''[Peer]'', ''PublicKey = '' @ peer_PublicKey u,
                                        ''Endpoint = '' @ peer_Endpoint u,
                                        ''AllowedIPs = '' @ AllowedIps u, []]) (Peers n))))
         \<and> (\<forall>u\<in>set (Peers serverNode). peer_Endpoint u = [])
         \<and> (\<exists>i. Interface serverNode = Some i
              \<and> buildNodeFile_lines serverNode =
                  Inr (interface_section i
                       @ concat (map (\<lambda>u. [''[Peer]'', ''PublicKey = '' @ peer_PublicKey u,
                                            ''Endpoint = '',
                                            ''AllowedIPs = '' @ AllowedIps u, []])
                                  (Peers serverNode))))"
proof -
  have sec: "peer_section = (\<lambda>u. [''[Peer]'', ''PublicKey = '' @ peer_PublicKey u,
                               ''Endpoint = '' @ peer_Endpoint u,
                               ''AllowedIPs = '' @ AllowedIps u, []])"
    by (rule ext) (simp add: peer_section_def)
  have all: "buildNodeFile_lines n =
              Inr (interface_section i
                   @ concat (map (\<lambda>u. [''[Peer]'', ''PublicKey = '' @ peer_PublicKey u,
                                        ''Endpoint = '' @ peer_Endpoint u,
                                        ''AllowedIPs = '' @ AllowedIps u, []]) (Peers n)))"
    if "Interface n = Some i" for n i
    using buildNodeFile_lines_sections[OF that] by (simp only: sec)
  from assms obtain pk c where
    srv: "serverNode =
           \<lparr>Interface = Some (server_interface X server pk c),
            Peers = map (\<lambda>p. server_peer X c (fst p) (snd p))
                      (filter active (enumerate 0 (Users server)))\<rparr>"
    by (rule buildNodes_server_node)
  have no_endpoint: "\<forall>u\<in>set (Peers serverNode). peer_Endpoint u = []"
    by (auto simp: srv server_peer_def)
  have iface: "Interface serverNode = Some (server_interface X server pk c)"
    by (simp add: srv)
  have eq: "map (\<lambda>u. [''[Peer]'', ''PublicKey = '' @ peer_PublicKey u,
                    ''Endpoint = '' @ peer_Endpoint u,
                    ''AllowedIPs = '' @ AllowedIps u, []]) (Peers serverNode) =
        map (\<lambda>u. [''[Peer]'', ''PublicKey = '' @ peer_PublicKey u,
                    ''Endpoint = '',
                    ''AllowedIPs = '' @ AllowedIps u, []]) (Peers serverNode)"
    using no_endpoint by (intro map_cong) simp_all
  have "\<exists>i. Interface serverNode = Some i
              \<and> buildNodeFile_lines serverNode =
                  Inr (interface_section i
                       @ concat (map (\<lambda>u. [''[Peer]'', ''PublicKey = '' @ peer_PublicKey u,
                                            ''Endpoint = '',
                                            ''AllowedIPs = '' @ AllowedIps u, []])
                                  (Peers serverNode)))"
  proof (intro exI conjI)
    show "Interface serverNode = Some (server_interface X server pk c)" by (rule iface)
    show "buildNodeFile_lines serverNode =
            Inr (interface_section (server_interface X server pk c)
                 @ concat (map (\<lambda>u. [''[Peer]'', ''PublicKey = '' @ peer_PublicKey u,
                                      ''Endpoint = '',
                                      ''AllowedIPs = '' @ AllowedIps u, []])
                            (Peers serverNode)))"
      using all[OF iface] unfolding eq .
  qed
  with all no_endpoint show ?thesis by blast
qed

text \<open>The server node of the example network.\<close>

theorem peer_sections_rendered_witness:
  "\<exists>serverNode userNodes i.
     buildNodes example_extern example_env example_server = Inr (serverNode, userNodes)
     \<and> (\<forall>u\<in>set (Peers serverNode). peer_Endpoint u = [])
     \<and> Interface serverNode = Some i
     \<and> buildNodeFile_lines serverNode =
         Inr (interface_section i
              @ concat (map (\<lambda>u. [''[Peer]'', ''PublicKey = '' @ peer_PublicKey u,
                                   ''Endpoint = '',
                                   ''AllowedIPs = '' @ AllowedIps u, []])
                         (Peers serverNode)))"
proof -
  obtain serverNode userNodes where
    b: "buildNodes example_extern example_env example_server = Inr (serverNode, userNodes)"
    using buildNodes_success[OF example_inputs] by blast
  from peer_sections_rendered[OF b] b show ?thesis by blast
qed

section \<open>The order of the firewall commands\<close>











section \<open>Peers of the server and of the users\<close>

lemma buildNodes_shape:
  assumes "buildNodes X env server = Inr (serverNode, userNodes)"
    and "getPrivateKey env (PrivateKey server) = Inr pk"
    and "wg_PublicKey X pk = Some pub"
    and "cidr_Parse X (Cidr server) = Some c"
  shows "\<exists>r. Peers serverNode =
               map (\<lambda>p. server_peer X c (fst p) (snd p))
                 (filter active (enumerate 0 (Users server)))
             \<and> userNodes =
               map (\<lambda>p. user_node X server pub r c (fst p))
                 (filter active (enumerate 0 (Users server)))"
proof (cases "Routes server")
  case None
  from buildNodes_no_routes[OF assms(2-4) None] assms(1)
  have "\<forall>u\<in>set (Users server). Revoked u" and "Peers serverNode = []" and "userNodes = []"
    by (auto split: if_splits)
  then show ?thesis by (simp add: active_filter_empty)
next
  case (Some r)
  from buildNodes_success[OF assms(2-4) Some] assms(1) show ?thesis
    by (intro exI[of _ r]) auto
qed

lemma active_entries_length:
  "length (filter active (enumerate n us)) = length (filter (\<lambda>u. \<not> Revoked u) us)"
  by (induction us arbitrary: n) (simp_all add: active_def)

lemma active_entries_set:
  "p \<in> set (filter active (enumerate 0 us)) \<longleftrightarrow>
     fst p < length us \<and> snd p = us ! fst p \<and> \<not> Revoked (us ! fst p)"
  by (auto simp: in_set_enumerate_eq active_def)

lemma active_entries_distinct: "distinct (map fst (filter active (enumerate n us)))"
  by (rule distinct_map_filter) simp

lemma one_entry_for_index:
  assumes "distinct (map fst E)" and "(j, v) \<in> set E"
  shows "length (filter (\<lambda>p. fst p = j) E) = 1"
  using assms
proof (induction E)
  case Nil
  then show ?case by simp
next
  case (Cons e E)
  show ?case
  proof (cases "fst e = j")
    case True
    from Cons.prems(1) True have "j \<notin> fst ` set E" by simp
    then have "\<forall>p\<in>set E. fst p \<noteq> j" by auto
    then have "filter (\<lambda>p. fst p = j) E = []" by (simp add: filter_empty_conv)
    with True show ?thesis by simp
  next
    case False
    with Cons.prems have "(j, v) \<in> set E" "distinct (map fst E)" by auto
    with Cons.IH False show ?thesis by simp
  qed
qed

lemma distinct_addresses_inj:
  assumes "distinct (map g [1..<Suc n])" and "i < n" and "j < n" and "g (i + 1) = g (j + 1)"
  shows "i = j"
proof -
  from assms(1) have inj: "inj_on g (set [1..<Suc n])" by (simp add: distinct_map)
  from assms(2,3) have mem: "i + 1 \<in> set [1..<Suc n]" "j + 1 \<in> set [1..<Suc n]" by auto
  from inj_onD[OF inj assms(4) mem] show ?thesis by simp
qed

text \<open>
  Claim C5. Let \<open>buildNodes\<close> succeed, and let the allocator give different addresses
  to the ordinals 1 to the number of users. For every active user at index \<open>j\<close> the
  server's peer list has exactly one entry with that user's public key and the user's
  \<open>/32\<close> address as allowed IPs; the user's own node carries that address and has exactly
  one peer, whose public key is the server's derived public key. For every revoked user
  no server peer and no user node carries the address of its index, and the server's
  peer list and the list of user nodes are as long as the list of active users.
\<close>

theorem peer_symmetry:
  assumes "buildNodes X env server = Inr (serverNode, userNodes)"
    and "getPrivateKey env (PrivateKey server) = Inr pk"
    and "wg_PublicKey X pk = Some pub"
    and "cidr_Parse X (Cidr server) = Some c"
    and "distinct (map (cidr_GetNth X c) [1..<Suc (length (Users server))])"
  shows "(\<forall>j<length (Users server). \<not> Revoked (Users server ! j) \<longrightarrow>
            length (filter (\<lambda>p. peer_PublicKey p = PublicKey (Users server ! j)
                              \<and> AllowedIps p = cidr_GetNth X c (j + 1) @ ''/32'')
                      (Peers serverNode)) = 1
            \<and> slot (Users server) j < length userNodes
            \<and> map_option Address (Interface (userNodes ! slot (Users server) j)) =
                Some (cidr_GetNth X c (j + 1) @ ''/32'')
            \<and> length (filter (\<lambda>q. peer_PublicKey q = pub)
                        (Peers (userNodes ! slot (Users server) j))) = 1
            \<and> length (Peers (userNodes ! slot (Users server) j)) = 1)
         \<and> (\<forall>j<length (Users server). Revoked (Users server ! j) \<longrightarrow>
              (\<forall>p\<in>set (Peers serverNode). AllowedIps p \<noteq> cidr_GetNth X c (j + 1) @ ''/32'')
              \<and> (\<forall>n\<in>set userNodes.
                    map_option Address (Interface n) \<noteq> Some (cidr_GetNth X c (j + 1) @ ''/32'')))
         \<and> length (Peers serverNode) = length (filter (\<lambda>u. \<not> Revoked u) (Users server))
         \<and> length userNodes = length (filter (\<lambda>u. \<not> Revoked u) (Users server))"
proof -
  define us where "us = Users server"
  define E where "E = filter active (enumerate 0 us)"
  define g where "g = cidr_GetNth X c"
  from buildNodes_shape[OF assms(1-4)] obtain r where
    peers: "Peers serverNode = map (\<lambda>p. server_peer X c (fst p) (snd p)) E"
    and nodes: "userNodes = map (\<lambda>p. user_node X server pub r c (fst p)) E"
    unfolding E_def us_def by blast
  have inj: "i = j" if "i < length us" "j < length us" "g (i + 1) = g (j + 1)" for i j
    using assms(5) that unfolding us_def g_def by (rule distinct_addresses_inj)
  have E_set: "fst p < length us \<and> snd p = us ! fst p \<and> \<not> Revoked (us ! fst p)"
    if "p \<in> set E" for p
    using that unfolding E_def by (rule active_entries_set[THEN iffD1])
  have E_len: "length E = length (filter (\<lambda>u. \<not> Revoked u) us)"
    unfolding E_def by (rule active_entries_length)
  have active_part:
    "length (filter (\<lambda>p. peer_PublicKey p = PublicKey (us ! j)
                              \<and> AllowedIps p = g (j + 1) @ ''/32'') (Peers serverNode)) = 1
     \<and> slot us j < length userNodes
     \<and> map_option Address (Interface (userNodes ! slot us j)) = Some (g (j + 1) @ ''/32'')
     \<and> length (filter (\<lambda>q. peer_PublicKey q = pub) (Peers (userNodes ! slot us j))) = 1
     \<and> length (Peers (userNodes ! slot us j)) = 1"
    if j: "j < length us" "\<not> Revoked (us ! j)" for j
  proof -
    from slot_filter_enumerate[OF j, of 0]
    have sl: "slot us j < length E" and at: "E ! slot us j = (j, us ! j)"
      unfolding E_def by simp_all
    from sl at have mem: "(j, us ! j) \<in> set E" by (metis nth_mem)
    have "filter (\<lambda>p. peer_PublicKey p = PublicKey (us ! j)
                         \<and> AllowedIps p = g (j + 1) @ ''/32'') (Peers serverNode) =
          map (\<lambda>p. server_peer X c (fst p) (snd p))
            (filter (\<lambda>p. PublicKey (snd p) = PublicKey (us ! j)
                         \<and> g (fst p + 1) = g (j + 1)) E)"
      by (simp add: peers filter_map comp_def server_peer_def g_def)
    also have "filter (\<lambda>p. PublicKey (snd p) = PublicKey (us ! j)
                         \<and> g (fst p + 1) = g (j + 1)) E = filter (\<lambda>p. fst p = j) E"
    proof (rule filter_cong[OF refl])
      fix p assume "p \<in> set E"
      from E_set[OF this] j(1) inj[of "fst p" j]
      show "(PublicKey (snd p) = PublicKey (us ! j) \<and> g (fst p + 1) = g (j + 1)) = (fst p = j)"
        by auto
    qed
    finally have "length (filter (\<lambda>p. peer_PublicKey p = PublicKey (us ! j)
                         \<and> AllowedIps p = g (j + 1) @ ''/32'') (Peers serverNode)) =
                  length (filter (\<lambda>p. fst p = j) E)"
      by simp
    also have "\<dots> = 1"
      using active_entries_distinct[of 0 us] mem unfolding E_def[symmetric]
      by (rule one_entry_for_index)
    finally have one: "length (filter (\<lambda>p. peer_PublicKey p = PublicKey (us ! j)
                         \<and> AllowedIps p = g (j + 1) @ ''/32'') (Peers serverNode)) = 1" .
    have node: "userNodes ! slot us j = user_node X server pub r c j"
      using sl at by (simp add: nodes)
    from one sl show ?thesis
      by (simp add: nodes at user_node_def g_def)
  qed
  have revoked_part:
    "(\<forall>p\<in>set (Peers serverNode). AllowedIps p \<noteq> g (j + 1) @ ''/32'')
     \<and> (\<forall>n\<in>set userNodes. map_option Address (Interface n) \<noteq> Some (g (j + 1) @ ''/32''))"
    if j: "j < length us" "Revoked (us ! j)" for j
  proof -
    have "g (fst p + 1) \<noteq> g (j + 1)" if "p \<in> set E" for p
      using E_set[OF that] j inj[of "fst p" j] by auto
    then show ?thesis
      by (auto simp: peers nodes server_peer_def user_node_def g_def)
  qed
  have lens: "length (Peers serverNode) = length (filter (\<lambda>u. \<not> Revoked u) us)"
    "length userNodes = length (filter (\<lambda>u. \<not> Revoked u) us)"
    by (simp_all add: peers nodes E_len)
  show ?thesis
    unfolding us_def[symmetric] g_def[symmetric]
    using active_part revoked_part lens by blast
qed

text \<open>The example network: the user at index 0 is active, the one at index 2 revoked.\<close>

theorem peer_symmetry_witness:
  "\<exists>serverNode userNodes.
     buildNodes example_extern example_env example_server = Inr (serverNode, userNodes)
     \<and> length (filter (\<lambda>p. peer_PublicKey p = ''A'' \<and> AllowedIps p = ''10.0.0.2/32'')
                 (Peers serverNode)) = 1
     \<and> length (filter (\<lambda>q. peer_PublicKey q = ''pub(secret)'')
                 (Peers (userNodes ! slot (Users example_server) 0))) = 1
     \<and> (\<forall>p\<in>set (Peers serverNode). AllowedIps p \<noteq> ''10.0.0.4/32'')
     \<and> length (Peers serverNode) = 2 \<and> length userNodes = 2"
proof -
  obtain serverNode userNodes where
    b: "buildNodes example_extern example_env example_server = Inr (serverNode, userNodes)"
    using buildNodes_success[OF example_inputs] by blast
  have d: "distinct (map (cidr_GetNth example_extern (167772160, 24))
                       [1..<Suc (length (Users example_server))])"
    by code_simp
  note sym = peer_symmetry[OF b example_inputs(1,2,3) d]
  have u0: "0 < length (Users example_server)" "\<not> Revoked (Users example_server ! 0)"
    by code_simp+
  have u2: "2 < length (Users example_server)" "Revoked (Users example_server ! 2)"
    by code_simp+
  have vals: "PublicKey (Users example_server ! 0) = ''A''"
    "cidr_GetNth example_extern (167772160, 24) (0 + 1) @ ''/32'' = ''10.0.0.2/32''"
    "cidr_GetNth example_extern (167772160, 24) (2 + 1) @ ''/32'' = ''10.0.0.4/32''"
    "length (filter (\<lambda>u. \<not> Revoked u) (Users example_server)) = 2"
    by code_simp+
  from sym[THEN conjunct1, rule_format, OF u0]
  have "length (filter (\<lambda>p. peer_PublicKey p = ''A'' \<and> AllowedIps p = ''10.0.0.2/32'')
                 (Peers serverNode)) = 1"
    and "length (filter (\<lambda>q. peer_PublicKey q = ''pub(secret)'')
                 (Peers (userNodes ! slot (Users example_server) 0))) = 1"
    unfolding vals by blast+
  moreover from sym[THEN conjunct2, THEN conjunct1, rule_format, OF u2]
  have "\<forall>p\<in>set (Peers serverNode). AllowedIps p \<noteq> ''10.0.0.4/32''"
    unfolding vals by blast
  moreover from sym[THEN conjunct2, THEN conjunct2]
  have "length (Peers serverNode) = 2 \<and> length userNodes = 2"
    unfolding vals .
  ultimately show ?thesis using b by blast
qed

section \<open>The example of the specification\<close>

lemma ipv4_example_values:
  "ipv4_Parse ''10.0.0.0/24'' = Some (167772160, 24)"
  "ipv4_First (167772160, 24) = ''10.0.0.1''"
  "ipv4_Mask (167772160, 24) = ''24''"
  "ipv4_GetNth (167772160, 24) (Suc 0) = ''10.0.0.2''"
  "ipv4_GetNth (167772160, 24) (Suc (Suc 0)) = ''10.0.0.3''"
  "fmt_d 51820 = ''51820''"
  by code_simp+

text \<open>
  Claim C7. With the allocator modelled from the specification, a secret that resolves
  and parses, the range \<open>10.0.0.0/24\<close>, three users of which only the last is revoked,
  the accept route \<open>10.1.0.0/16\<close>, the endpoint \<open>vpn.example.com\<close> and the port 51820:
  the server has the address \<open>10.0.0.1/24\<close> and exactly two peers, for the first two
  users with the addresses \<open>10.0.0.2/32\<close> and \<open>10.0.0.3/32\<close>; there are exactly two user
  nodes, with these addresses; the first user's node has the single peer with endpoint
  \<open>vpn.example.com:51820\<close> and allowed IPs \<open>10.1.0.0/16\<close>.
\<close>

theorem example_network:
  assumes "cidr_Parse X = ipv4_Parse" and "cidr_First X = ipv4_First"
    and "cidr_Mask X = ipv4_Mask" and "cidr_GetNth X = ipv4_GetNth"
    and "getPrivateKey env (PrivateKey server) = Inr pk" and "wg_PublicKey X pk = Some pub"
    and "Cidr server = ''10.0.0.0/24''"
    and "Users server = [u0, u1, u2]"
    and "\<not> Revoked u0" and "\<not> Revoked u1" and "Revoked u2"
    and "Routes server = Some r" and "Accept r = [''10.1.0.0/16'']"
    and "Endpoint server = ''vpn.example.com''" and "ListenPort server = 51820"
  shows "\<exists>serverNode n0 n1 p0 p1 q.
           buildNodes X env server = Inr (serverNode, [n0, n1])
           \<and> map_option Address (Interface serverNode) = Some ''10.0.0.1/24''
           \<and> map_option Address (Interface n0) = Some ''10.0.0.2/32''
           \<and> map_option Address (Interface n1) = Some ''10.0.0.3/32''
           \<and> Peers serverNode = [p0, p1]
           \<and> peer_PublicKey p0 = PublicKey u0 \<and> AllowedIps p0 = ''10.0.0.2/32''
           \<and> peer_PublicKey p1 = PublicKey u1 \<and> AllowedIps p1 = ''10.0.0.3/32''
           \<and> Peers n0 = [q]
           \<and> peer_PublicKey q = pub
           \<and> peer_Endpoint q = ''vpn.example.com:51820''
           \<and> AllowedIps q = ''10.1.0.0/16''"
proof -
  have parse: "cidr_Parse X (Cidr server) = Some (167772160, 24)"
    by (simp add: assms(1,7) ipv4_example_values)
  have en: "filter active (enumerate 0 (Users server)) = [(0, u0), (Suc 0, u1)]"
    by (simp add: assms(8-11) active_def)
  show ?thesis
    unfolding buildNodes_success[OF assms(5,6) parse assms(12)] en
    by (simp add: server_peer_def user_node_def server_interface_def assms(2-4,13-15)
        ipv4_example_values)
qed

text \<open>The example network with the stand-in libraries.\<close>

theorem example_network_witness:
  "\<exists>serverNode n0 n1 p0 p1 q.
     buildNodes example_extern example_env example_server = Inr (serverNode, [n0, n1])
     \<and> map_option Address (Interface serverNode) = Some ''10.0.0.1/24''
     \<and> map_option Address (Interface n0) = Some ''10.0.0.2/32''
     \<and> map_option Address (Interface n1) = Some ''10.0.0.3/32''
     \<and> Peers serverNode = [p0, p1]
     \<and> peer_PublicKey p0 = ''A'' \<and> AllowedIps p0 = ''10.0.0.2/32''
     \<and> peer_PublicKey p1 = ''B'' \<and> AllowedIps p1 = ''10.0.0.3/32''
     \<and> Peers n0 = [q]
     \<and> peer_PublicKey q = ''pub(secret)''
     \<and> peer_Endpoint q = ''vpn.example.com:51820''
     \<and> AllowedIps q = ''10.1.0.0/16''"
proof -
  have lib: "cidr_Parse example_extern = ipv4_Parse" "cidr_First example_extern = ipv4_First"
    "cidr_Mask example_extern = ipv4_Mask" "cidr_GetNth example_extern = ipv4_GetNth"
    by (simp_all add: example_extern_def)
  have spec: "Cidr example_server = ''10.0.0.0/24''"
    "Users example_server = [\<lparr>PublicKey = ''A'', Revoked = False\<rparr>,
       \<lparr>PublicKey = ''B'', Revoked = False\<rparr>, \<lparr>PublicKey = ''C'', Revoked = True\<rparr>]"
    "Routes example_server = Some \<lparr>Accept = [''10.1.0.0/16'']\<rparr>"
    "Endpoint example_server = ''vpn.example.com''" "ListenPort example_server = 51820"
    by (simp_all add: example_server_def)
  from example_network[OF lib example_inputs(1,2) spec(1,2) _ _ _ spec(3) _ spec(4,5)]
  show ?thesis by simp
qed

end
